theory Spec2Isabelle
  imports Main "HOL-Library.Word"
begin

section \<open>Data model\<close>

text \<open>
  Go strings and byte slices are sequences of bytes; both are modelled as \<open>string\<close>.
  An \<open>ssh.PublicKey\<close> is identified with its wire encoding (the result of its
  \<open>Marshal\<close> method), which is all the daemon ever reads from a key.
\<close>

type_synonym bytes = string
type_synonym publicKey = bytes

record signature =
  Format :: string
  Blob :: bytes

text \<open>The fields of \<open>ssh.Certificate\<close>; \<open>Signature\<close> is a pointer and may be nil.\<close>

record certificate =
  Nonce :: bytes
  Key :: publicKey
  Serial :: "64 word"
  CertType :: "32 word"
  KeyId :: string
  ValidPrincipals :: "string list"
  ValidAfter :: "64 word"
  ValidBefore :: "64 word"
  CriticalOptions :: "(string \<times> string) list"
  Extensions :: "(string \<times> string) list"
  Reserved :: bytes
  SignatureKey :: publicKey
  Signature :: "signature option"

text \<open>\<open>ssh.ParsePublicKey\<close> returns an interface value: a plain key or a certificate.\<close>

datatype parsedKey = PlainKey publicKey | CertKey certificate

text \<open>\<open>SignerdConfig\<close> of util/config.go.\<close>

record SignerdConfig =
  SigningKeyFingerprint :: string
  AuthorizedSigners :: "string \<rightharpoonup> string"
  AuthorizedUsers :: "string \<rightharpoonup> string"
  NumberSignersRequired :: int

text \<open>
  \<open>certRequest\<close>. The field \<open>request\<close> is a pointer in the source. Each record owns the
  certificate it points to (the pointer comes fresh out of the parser and is never stored
  twice), so the record holds the certificate itself and a write through the pointer is
  an update of the record in the store. The pointer is never nil in a stored record.
\<close>

record certRequest =
  request :: certificate
  submitTime :: nat
  environment :: string
  signatures :: "string \<rightharpoonup> bool"
  certSigned :: bool
  reason :: string

text \<open>
  The agent connection is an \<open>io.ReadWriter\<close>; it is modelled by the list of operations
  requested over it so far, oldest first.
\<close>

datatype agentOp = AgentFindKey string | AgentSignCert publicKey certificate

text \<open>
  \<open>certRequestHandler\<close>. \<open>NextSerial\<close> is an unbuffered channel fed by one goroutine that
  counts upwards in a \<open>uint64\<close>; it is modelled by the value that goroutine sends next.
\<close>

record certRequestHandler =
  Config :: "string \<rightharpoonup> SignerdConfig"
  state :: "string \<rightharpoonup> certRequest"
  sshAgentConn :: "agentOp list"
  NextSerial :: "64 word"

text \<open>
  What the handlers read of an \<open>http.Request\<close>: the outcome of \<open>ParseForm\<close> (an error
  message, or none) and the two form maps it fills. A key bound to \<open>None\<close> is absent
  (indexing the Go map yields the nil slice).
\<close>

record httpRequest =
  ParseFormErr :: "string option"
  Form :: "string \<rightharpoonup> string list"
  PostForm :: "string \<rightharpoonup> string list"

text \<open>
  What a handler leaves on the \<open>http.ResponseWriter\<close>: a status and a body, or nothing
  because the handler panicked (net/http recovers the panic and drops the connection).
\<close>

datatype response = Response (status: nat) (body: string) | Panic

datatype error = Err string | PanicIndex | PanicTypeAssertion

record listResponseElement =
  Environment :: string
  Reason :: string
  CertBlob :: string

section \<open>Library functions\<close>

text \<open>
  Functions of the Go standard library, of golang.org/x/crypto/ssh and of the package
  \<open>ssh_ca_util\<close> (\<open>MakeFingerprint\<close>, \<open>GetSignerForFingerprint\<close>) that the handlers call.
  They are parameters of the model. A failing call returns \<open>None\<close> (or, where the
  message is used, \<open>Inl\<close> of the message); \<open>CheckCert\<close> returns its error, if any.
\<close>

record lib =
  DecodeString :: "string \<Rightarrow> bytes option"
  EncodeToString :: "bytes \<Rightarrow> string"
  Base32EncodeToString :: "bytes \<Rightarrow> string"
  ParsePublicKey :: "bytes \<Rightarrow> parsedKey option"
  CheckCert :: "(publicKey \<Rightarrow> bool) \<Rightarrow> string \<Rightarrow> certificate \<Rightarrow> string option"
  Marshal :: "certificate \<Rightarrow> bytes"
  Type :: "certificate \<Rightarrow> string"
  MakeFingerprint :: "bytes \<Rightarrow> string"
  GetSignerForFingerprint :: "string \<Rightarrow> publicKey option"
  AgentSign :: "publicKey \<Rightarrow> certificate \<Rightarrow> signature option"
  JsonMarshal :: "(string \<rightharpoonup> listResponseElement) \<Rightarrow> string + string"

text \<open>\<open>http.Error\<close> writes the status and the message followed by a newline.\<close>

definition httpError :: "string \<Rightarrow> nat \<Rightarrow> response" where
  "httpError msg code = Response code (msg @ [CHR 0x0A])"

text \<open>
  \<open>Certificate.SignCert\<close> of x/crypto/ssh writes three fields of its receiver: a fresh
  nonce, the authority's public key, and the signature the authority returns. When the
  authority fails it returns an error and leaves \<open>Signature\<close> as it was. \<open>nonce\<close> stands
  for the 32 bytes read from \<open>rand.Reader\<close>.
\<close>

definition SignCert :: "lib \<Rightarrow> bytes \<Rightarrow> publicKey \<Rightarrow> certificate \<Rightarrow> certificate" where
  "SignCert l nonce authority c =
     (let c1 = c\<lparr>Nonce := nonce, SignatureKey := authority\<rparr>
      in case AgentSign l authority c1 of
           None \<Rightarrow> c1
         | Some sig \<Rightarrow> c1\<lparr>Signature := Some sig\<rparr>)"

section \<open>The handlers\<close>

definition newcertRequest :: "nat \<Rightarrow> certificate \<Rightarrow> certRequest" where
  \<comment> \<open>\<open>now\<close> is \<open>time.Now()\<close>; the caller assigns \<open>request\<close> on the next line\<close>
  "newcertRequest now cert =
     \<lparr>request = cert, submitTime = now, environment = [], signatures = Map.empty,
      certSigned = False, reason = []\<rparr>"

definition formBoilerplate ::
  "certRequestHandler \<Rightarrow> httpRequest \<Rightarrow> error + (SignerdConfig \<times> string)" where
  "formBoilerplate h req =
     (case ParseFormErr req of
        Some e \<Rightarrow> Inl (Err e)
      | None \<Rightarrow>
         (case Form req ''environment'' of
            None \<Rightarrow> Inl (Err ''Must specify environment'')
          | Some [] \<Rightarrow> Inl PanicIndex
          | Some (env # _) \<Rightarrow>
             (case Config h env of
                None \<Rightarrow> Inl (Err ''Environment is not configured (is it valid?)'')
              | Some config \<Rightarrow> Inr (config, env))))"

definition extractCertFromRequest ::
  "lib \<Rightarrow> httpRequest \<Rightarrow> (string \<rightharpoonup> string) \<Rightarrow> error + certificate" where
  "extractCertFromRequest l req authorizedSigners =
     (case PostForm req ''cert'' of
        None \<Rightarrow> Inl (Err ''Please specify exactly one cert request'')
      | Some [] \<Rightarrow> Inl (Err ''Please specify exactly one cert request'')
      | Some (blob # _) \<Rightarrow>
         (case DecodeString l blob of
            None \<Rightarrow> Inl (Err ''Unable to base64 decode cert request'')
          | Some rawCertRequest \<Rightarrow>
             (case ParsePublicKey l rawCertRequest of
                None \<Rightarrow> Inl (Err ''Unable to parse cert request'')
              | Some (PlainKey k) \<Rightarrow> Inl PanicTypeAssertion
              | Some (CertKey cert) \<Rightarrow>
                 (case ValidPrincipals cert of
                    [] \<Rightarrow> Inl PanicIndex
                  | p # _ \<Rightarrow>
                     (case CheckCert l
                             (\<lambda>auth. MakeFingerprint l auth \<in> dom authorizedSigners)
                             p cert of
                        Some e \<Rightarrow> Inl (Err (''Cert not valid: '' @ e))
                      | None \<Rightarrow> Inr cert)))))"

text \<open>
  \<open>saveSigningRequest\<close> returns its error, if any, and the handler. (It also writes
  \<open>KeyId\<close> and \<open>Serial\<close> into the caller's certificate before it fails; the caller
  drops that certificate on failure.)
\<close>

definition saveSigningRequest ::
  "lib \<Rightarrow> certRequestHandler \<Rightarrow> SignerdConfig \<Rightarrow> string \<Rightarrow> string \<Rightarrow> string \<Rightarrow> 64 word
     \<Rightarrow> certificate \<Rightarrow> nat \<Rightarrow> string option \<times> certRequestHandler" where
  "saveSigningRequest l h config env rsn requestIDStr requestSerial cert now =
     (let requesterFp = MakeFingerprint l (SignatureKey cert) in
      case AuthorizedUsers config requesterFp of
        None \<Rightarrow>
          (Some (''Requester fingerprint ('' @ requesterFp @ '') not found in config''), h)
      | Some name \<Rightarrow>
          if requestSerial = 0 then (Some ''Serial number not set.'', h)
          else if env = [] then (Some ''Environment is a required field'', h)
          else if rsn = [] then (Some ''Reason is a required field'', h)
          else if length requestIDStr < 12
            then (Some ''Request id is too short to be useful.'', h)
          else if requestIDStr \<in> dom (state h)
            then (Some (''Request id '' @ [CHR 0x27] @ requestIDStr @ [CHR 0x27] @
                        '' already in use.''), h)
          else
            (None,
             h\<lparr>state := (state h)(requestIDStr \<mapsto>
                  (newcertRequest now (cert\<lparr>KeyId := name, Serial := requestSerial\<rparr>))
                    \<lparr>environment := env, reason := rsn\<rparr>)\<rparr>))"

text \<open>Receiving from the channel: the value sent, and the sender's counter stepped.\<close>

definition recvNextSerial :: "certRequestHandler \<Rightarrow> 64 word \<times> certRequestHandler" where
  "recvNextSerial h = (NextSerial h, h\<lparr>NextSerial := NextSerial h + 1\<rparr>)"

text \<open>\<open>requestID\<close> stands for the 10 bytes read from \<open>rand.Reader\<close>.\<close>

definition createSigningRequest ::
  "lib \<Rightarrow> certRequestHandler \<Rightarrow> httpRequest \<Rightarrow> bytes \<Rightarrow> nat
     \<Rightarrow> response \<times> certRequestHandler" where
  "createSigningRequest l h req requestID now =
     (case formBoilerplate h req of
        Inl (Err e) \<Rightarrow> (httpError e 400, h)
      | Inl _ \<Rightarrow> (Panic, h)
      | Inr (config, env) \<Rightarrow>
         (case extractCertFromRequest l req (AuthorizedUsers config) of
            Inl (Err e) \<Rightarrow> (httpError e 400, h)
          | Inl _ \<Rightarrow> (Panic, h)
          | Inr cert \<Rightarrow>
             (case Form req ''reason'' of
                None \<Rightarrow> (Panic, h)
              | Some [] \<Rightarrow> (Panic, h)
              | Some (rsn # _) \<Rightarrow>
                 if rsn = [] then (httpError ''You forgot to send in a reason'' 400, h)
                 else
                   (let requestIDStr = Base32EncodeToString l requestID;
                        (nextSerial, h1) = recvNextSerial h
                    in case saveSigningRequest l h1 config env rsn requestIDStr
                              nextSerial cert now of
                         (Some e, h2) \<Rightarrow> (httpError (''Request not made: '' @ e) 400, h2)
                       | (None, h2) \<Rightarrow> (Response 201 requestIDStr, h2)))))"

definition newResponseElement :: "string \<Rightarrow> string \<Rightarrow> string \<Rightarrow> listResponseElement" where
  "newResponseElement env rsn certBlob =
     \<lparr>Environment = env, Reason = rsn, CertBlob = certBlob\<rparr>"

text \<open>The pattern \<open>^[A-Z2-7=]{16}$\<close>.\<close>

definition idChar :: "char \<Rightarrow> bool" where
  "idChar c = (let n = (of_char c :: nat)
               in (65 \<le> n \<and> n \<le> 90) \<or> (50 \<le> n \<and> n \<le> 55) \<or> n = 61)"

definition matchRequestId :: "string \<Rightarrow> bool" where
  "matchRequestId s = (length s = 16 \<and> list_all idChar s)"

text \<open>
  The loop over the store. Go visits the keys of a map in an unspecified order; \<open>ks\<close>
  is the order of this visit. The accumulator is \<open>(results, foundSomething)\<close>.
\<close>

fun listLoop ::
  "lib \<Rightarrow> (string \<rightharpoonup> certRequest) \<Rightarrow> string \<Rightarrow> string list
     \<Rightarrow> (string \<rightharpoonup> listResponseElement) \<times> bool
     \<Rightarrow> (string \<rightharpoonup> listResponseElement) \<times> bool" where
  "listLoop l st certRequestID [] acc = acc"
| "listLoop l st certRequestID (k # ks) (results, foundSomething) =
     (case st k of
        None \<Rightarrow> listLoop l st certRequestID ks (results, foundSomething)
      | Some v \<Rightarrow>
         (let encodedCert = EncodeToString l (Marshal l (request v));
              element = newResponseElement (environment v) (reason v) encodedCert
          in if certRequestID = [] then
               listLoop l st certRequestID ks (results(k \<mapsto> element), True)
             else if certRequestID = k then (results(k \<mapsto> element), True)
             else listLoop l st certRequestID ks (results, foundSomething)))"

definition listPendingRequests ::
  "lib \<Rightarrow> certRequestHandler \<Rightarrow> httpRequest \<Rightarrow> string list \<Rightarrow> response" where
  "listPendingRequests l h req ks =
     (case ParseFormErr req of
        Some e \<Rightarrow> httpError e 400
      | None \<Rightarrow>
         (case Form req ''certRequestId'' of
            Some [] \<Rightarrow> Panic
          | certRequestIDs \<Rightarrow>
             (let certRequestID = (case certRequestIDs of Some (x # _) \<Rightarrow> x | _ \<Rightarrow> [])
              in if certRequestID \<noteq> [] \<and> \<not> matchRequestId certRequestID
                 then httpError ''Invalid certRequestId'' 400
                 else
                   (case listLoop l (state h) certRequestID ks (Map.empty, False) of
                      (results, True) \<Rightarrow>
                        (case JsonMarshal l results of
                           Inl e \<Rightarrow> httpError (''Trouble marshaling json response '' @ e) 500
                         | Inr output \<Rightarrow> Response 200 output)
                    | (results, False) \<Rightarrow> httpError ''No certs found.'' 404))))"

text \<open>
  Indexing the store with an unknown id yields the zero record, whose \<open>certSigned\<close> is
  false.
\<close>

definition getRequestStatus :: "lib \<Rightarrow> certRequestHandler \<Rightarrow> string \<Rightarrow> response" where
  "getRequestStatus l h requestID =
     (case state h requestID of
        None \<Rightarrow> httpError ''Cert not signed yet.'' 412
      | Some r \<Rightarrow>
          if certSigned r
          then Response 200 (Type l (request r) @ '' '' @
                             EncodeToString l (Marshal l (request r)) @ [CHR 0x0A])
          else httpError ''Cert not signed yet.'' 412)"

text \<open>
  \<open>signRequest\<close>. \<open>requestedCert\<close> is the pointer held by the stored record, so the two
  assignments through it (\<open>Signature\<close>, \<open>Nonce\<close>) change the store: \<open>h1\<close> is the handler
  after them. A handler that writes nothing answers 200 with an empty body.
\<close>

definition signRequest ::
  "lib \<Rightarrow> certRequestHandler \<Rightarrow> string \<Rightarrow> httpRequest \<Rightarrow> bytes
     \<Rightarrow> response \<times> certRequestHandler" where
  "signRequest l h requestID req nonce =
     (case state h requestID of
        None \<Rightarrow> (httpError ''Unknown request id'' 404, h)
      | Some originalRequest \<Rightarrow>
         (case ParseFormErr req of
            Some e \<Rightarrow> (httpError e 400, h)
          | None \<Rightarrow>
             (case Config h (environment originalRequest) of
                None \<Rightarrow>
                  (httpError ''Original request found to have an invalid env. Weird.'' 400, h)
              | Some envConfig \<Rightarrow>
                 (case extractCertFromRequest l req (AuthorizedSigners envConfig) of
                    Inl (Err e) \<Rightarrow> (httpError e 400, h)
                  | Inl _ \<Rightarrow> (Panic, h)
                  | Inr parsedCert \<Rightarrow>
                     (let signerFp = MakeFingerprint l (SignatureKey parsedCert);
                          storedCert = request originalRequest;
                          signedCert = parsedCert\<lparr>SignatureKey := SignatureKey storedCert,
                                                 Signature := None, Nonce := []\<rparr>;
                          requestedCert = storedCert\<lparr>Signature := None, Nonce := []\<rparr>;
                          r1 = originalRequest\<lparr>request := requestedCert\<rparr>;
                          h1 = h\<lparr>state := (state h)(requestID \<mapsto> r1)\<rparr>
                      in if Marshal l requestedCert \<noteq> Marshal l signedCert
                         then (httpError ''Signature was valid, but cert didn't match.'' 400, h1)
                         else
                           (let r2 = r1\<lparr>signatures := (signatures r1)(signerFp \<mapsto> True)\<rparr>;
                                h2 = h1\<lparr>state := (state h1)(requestID \<mapsto> r2)\<rparr>
                            in if int (card (dom (signatures r2)))
                                    \<ge> NumberSignersRequired envConfig
                               then
                                 (let h3 = h2\<lparr>sshAgentConn := sshAgentConn h2 @
                                              [AgentFindKey (SigningKeyFingerprint envConfig)]\<rparr>
                                  in case GetSignerForFingerprint l
                                            (SigningKeyFingerprint envConfig) of
                                       None \<Rightarrow>
                                         (httpError
                                            ''Couldn't find signing key, unable to sign. Sorry.''
                                            404, h3)
                                     | Some signer \<Rightarrow>
                                         (let stateInfo = r2\<lparr>
                                                request := SignCert l nonce signer (request r2),
                                                certSigned := True\<rparr>
                                          in (Response 200 [],
                                              h3\<lparr>sshAgentConn := sshAgentConn h3 @
                                                    [AgentSignCert signer
                                                       ((request r2)\<lparr>Nonce := nonce,
                                                          SignatureKey := signer\<rparr>)],
                                                  state := (state h3)(requestID \<mapsto> stateInfo)\<rparr>)))
                               else (Response 200 [], h2)))))))"

definition makeCertRequestHandler :: "(string \<rightharpoonup> SignerdConfig) \<Rightarrow> certRequestHandler" where
  \<comment> \<open>the agent connection is attached by \<open>runSignCertd\<close>; nothing has been sent on it\<close>
  "makeCertRequestHandler config =
     \<lparr>Config = config, state = Map.empty, sshAgentConn = [], NextSerial = 1\<rparr>"

text \<open>
  The routes of \<open>runSignCertd\<close>: POST and GET on \<open>/cert/requests\<close>, GET and POST on
  \<open>/cert/requests/{requestID}\<close>. A call carries what the handler reads from outside: the
  request, the random bytes, the clock, the visiting order of the store.
\<close>

datatype httpCall =
    PostRequests httpRequest bytes nat
  | GetRequests httpRequest "string list"
  | GetRequest string
  | PostRequest string httpRequest bytes

fun serve :: "lib \<Rightarrow> certRequestHandler \<Rightarrow> httpCall \<Rightarrow> response \<times> certRequestHandler" where
  "serve l h (PostRequests req requestID now) = createSigningRequest l h req requestID now"
| "serve l h (GetRequests req ks) = (listPendingRequests l h req ks, h)"
| "serve l h (GetRequest requestID) = (getRequestStatus l h requestID, h)"
| "serve l h (PostRequest requestID req nonce) = signRequest l h requestID req nonce"

text \<open>The handler after a sequence of calls, served one after the other.\<close>

fun serveAll :: "lib \<Rightarrow> certRequestHandler \<Rightarrow> httpCall list \<Rightarrow> certRequestHandler" where
  "serveAll l h [] = h"
| "serveAll l h (c # cs) = serveAll l (snd (serve l h c)) cs"

text \<open>The first \<open>n\<close> values received from the serial channel.\<close>

fun recvMany :: "nat \<Rightarrow> certRequestHandler \<Rightarrow> 64 word list" where
  "recvMany 0 h = []"
| "recvMany (Suc n) h = (case recvNextSerial h of (s, h') \<Rightarrow> s # recvMany n h')"

text \<open>
  The invariant of the serials after \<open>k\<close> receives: the channel delivers \<open>k + 1\<close> next,
  every stored serial is one of \<open>1, ..., k\<close>, and no two records share one.
\<close>

definition serialInv :: "nat \<Rightarrow> certRequestHandler \<Rightarrow> bool" where
  "serialInv k h \<longleftrightarrow>
     NextSerial h = of_nat (Suc k) \<and>
     (\<forall>id r. state h id = Some r \<longrightarrow>
        (\<exists>j. 0 < j \<and> j \<le> k \<and> Serial (request r) = of_nat j)) \<and>
     (\<forall>id id' r r'. id \<noteq> id' \<and> state h id = Some r \<and> state h id' = Some r' \<longrightarrow>
        Serial (request r) \<noteq> Serial (request r'))"

section \<open>An example deployment\<close>

text \<open>
  One environment \<open>prod\<close> with one requester, three signers and a quorum of two, and
  stand-ins for the library functions that are simple enough to evaluate: encodings are
  the identity, a fingerprint is the key behind a prefix, the parser is a table of the
  blobs used below, the certificate check asks the authority predicate about the
  signature key, and the wire form lists the textual fields.
\<close>

definition prodConfig :: SignerdConfig where
  "prodConfig =
     \<lparr>SigningKeyFingerprint = ''fp:CA'',
      AuthorizedSigners =
        [''fp:S1'' \<mapsto> ''signer one'', ''fp:S2'' \<mapsto> ''signer two'',
         ''fp:S3'' \<mapsto> ''signer three''],
      AuthorizedUsers = [''fp:U1'' \<mapsto> ''alice''],
      NumberSignersRequired = 2\<rparr>"

definition exConfig :: "string \<rightharpoonup> SignerdConfig" where
  "exConfig = [''prod'' \<mapsto> prodConfig]"

definition submittedCert :: certificate where
  "submittedCert =
     \<lparr>Nonce = ''n0'', Key = ''userkey'', Serial = 0, CertType = 1, KeyId = ''mallory'',
      ValidPrincipals = [''ec2-user''], ValidAfter = 0, ValidBefore = 100,
      CriticalOptions = [], Extensions = [], Reserved = [],
      SignatureKey = ''U1'', Signature = Some \<lparr>Format = ''ssh-rsa'', Blob = ''sigU1''\<rparr>\<rparr>"

definition acceptedCert :: certificate where
  "acceptedCert = submittedCert\<lparr>KeyId := ''alice'', Serial := 1\<rparr>"

definition endorsedBy :: "publicKey \<Rightarrow> certificate \<Rightarrow> certificate" where
  "endorsedBy k c =
     c\<lparr>Nonce := ''n-'' @ k, SignatureKey := k,
       Signature := Some \<lparr>Format = ''ssh-rsa'', Blob = ''sig-'' @ k\<rparr>\<rparr>"

definition exParse :: "bytes \<Rightarrow> parsedKey option" where
  "exParse b =
     (if b = ''request-U1'' then Some (CertKey submittedCert)
      else if b = ''request-X'' then Some (CertKey (submittedCert\<lparr>SignatureKey := ''X''\<rparr>))
      else if b = ''plain-U1'' then Some (PlainKey ''U1'')
      else if b = ''noprincipals-U1''
        then Some (CertKey (submittedCert\<lparr>ValidPrincipals := []\<rparr>))
      else if b = ''endorsed-S1'' then Some (CertKey (endorsedBy ''S1'' acceptedCert))
      else if b = ''endorsed-S2'' then Some (CertKey (endorsedBy ''S2'' acceptedCert))
      else if b = ''endorsed-S3'' then Some (CertKey (endorsedBy ''S3'' acceptedCert))
      else if b = ''forged-S1''
        then Some (CertKey (endorsedBy ''S1'' (acceptedCert\<lparr>ValidPrincipals := [''root'']\<rparr>)))
      else None)"

definition exMarshal :: "certificate \<Rightarrow> bytes" where
  "exMarshal c =
     Nonce c @ ''|'' @ Key c @ ''|'' @ KeyId c @ ''|'' @ concat (ValidPrincipals c) @ ''|'' @
     SignatureKey c @ ''|'' @ (case Signature c of None \<Rightarrow> [] | Some sg \<Rightarrow> Blob sg)"

definition exLib :: lib where
  "exLib =
     \<lparr>DecodeString = Some,
      EncodeToString = (\<lambda>b. b),
      Base32EncodeToString = (\<lambda>b. b),
      ParsePublicKey = exParse,
      CheckCert = (\<lambda>isAuthority p c.
         if isAuthority (SignatureKey c) then None
         else Some ''ssh: certificate signed by unrecognized authority''),
      Marshal = exMarshal,
      Type = (\<lambda>c. ''ssh-rsa-cert-v01@openssh.com''),
      MakeFingerprint = (\<lambda>k. ''fp:'' @ k),
      GetSignerForFingerprint = (\<lambda>fp. if fp = ''fp:CA'' then Some ''CA'' else None),
      AgentSign = (\<lambda>k c. Some \<lparr>Format = ''ssh-rsa'', Blob = ''sig-'' @ k\<rparr>),
      JsonMarshal = (\<lambda>results. Inr ''{...}'')\<rparr>"

definition formOf :: "(string \<times> string) list \<Rightarrow> httpRequest" where
  \<comment> \<open>a request whose form parsed to these fields, one value each\<close>
  "formOf kvs =
     \<lparr>ParseFormErr = None,
      Form = map_of (map (\<lambda>(k, v). (k, [v])) kvs),
      PostForm = map_of (map (\<lambda>(k, v). (k, [v])) kvs)\<rparr>"

definition exId :: string where
  "exId = ''AAAAAAAAAAAAAAAA''"

text \<open>
  The requester creates the request; then two of the signers endorse it, which reaches the
  quorum and has the certificate signed.
\<close>

definition createCall :: httpCall where
  "createCall =
     PostRequests
       (formOf [(''environment'', ''prod''), (''cert'', ''request-U1''), (''reason'', ''deploy'')])
       exId 0"

definition createCall2 :: httpCall where
  "createCall2 =
     PostRequests
       (formOf [(''environment'', ''prod''), (''cert'', ''request-U1''), (''reason'', ''again'')])
       ''BBBBBBBBBBBBBBBB'' 1"

definition pendingHandler :: certRequestHandler where
  "pendingHandler = serveAll exLib (makeCertRequestHandler exConfig) [createCall]"

definition signedHandler :: certRequestHandler where
  "signedHandler =
     serveAll exLib pendingHandler
       [PostRequest exId (formOf [(''cert'', ''endorsed-S1'')]) ''n-1'',
        PostRequest exId (formOf [(''cert'', ''endorsed-S2'')]) ''n-CA'']"

definition pendingRecord :: certRequest where
  "pendingRecord =
     \<lparr>request = acceptedCert, submitTime = 0, environment = ''prod'',
      signatures = Map.empty, certSigned = False, reason = ''deploy''\<rparr>"

definition signedCert :: certificate where
  "signedCert =
     acceptedCert\<lparr>Nonce := ''n-CA'', SignatureKey := ''CA'',
       Signature := Some \<lparr>Format = ''ssh-rsa'', Blob = ''sig-CA''\<rparr>\<rparr>"

definition signedRecord :: certRequest where
  "signedRecord =
     \<lparr>request = signedCert, submitTime = 0, environment = ''prod'',
      signatures = [''fp:S1'' \<mapsto> True, ''fp:S2'' \<mapsto> True], certSigned = True,
      reason = ''deploy''\<rparr>"

text \<open>
  The same library with a certificate check that accepts everything, to reach the
  fingerprint lookup of \<open>saveSigningRequest\<close> with a requester that is not configured.
\<close>

definition lenientLib :: lib where
  "lenientLib = exLib\<lparr>CheckCert := (\<lambda>isAuthority p c. None)\<rparr>"

section \<open>Evaluation of the example\<close>

lemma pendingHandler_eq:
  "pendingHandler =
     \<lparr>Config = exConfig, state = [exId \<mapsto> pendingRecord], sshAgentConn = [], NextSerial = 2\<rparr>"
  by (simp add: pendingHandler_def createCall_def createSigningRequest_def formBoilerplate_def
      extractCertFromRequest_def saveSigningRequest_def recvNextSerial_def
      makeCertRequestHandler_def newcertRequest_def Let_def exLib_def exParse_def formOf_def
      exConfig_def prodConfig_def submittedCert_def acceptedCert_def exId_def
      pendingRecord_def)

lemma signedHandler_eq:
  "signedHandler =
     \<lparr>Config = exConfig, state = [exId \<mapsto> signedRecord],
      sshAgentConn =
        [AgentFindKey ''fp:CA'',
         AgentSignCert ''CA'' (signedCert\<lparr>Signature := None\<rparr>)],
      NextSerial = 2\<rparr>"
  by (simp add: signedHandler_def pendingHandler_eq signRequest_def extractCertFromRequest_def
      SignCert_def Let_def exLib_def exParse_def exMarshal_def formOf_def exConfig_def
      prodConfig_def submittedCert_def acceptedCert_def endorsedBy_def exId_def
      pendingRecord_def signedRecord_def signedCert_def)

lemmas ex_defs = exLib_def exParse_def exMarshal_def formOf_def exConfig_def prodConfig_def
  submittedCert_def acceptedCert_def endorsedBy_def exId_def pendingRecord_def
  pendingHandler_eq signedHandler_eq signedRecord_def signedCert_def

section \<open>The validator and the form fields\<close>

lemma extract_plain_key:
  assumes "PostForm req ''cert'' = Some (blob # rest)"
    and "DecodeString l blob = Some raw"
    and "ParsePublicKey l raw = Some (PlainKey k)"
  shows "extractCertFromRequest l req auth = Inl PanicTypeAssertion"
  using assms by (simp add: extractCertFromRequest_def)

lemma extract_no_principals:
  assumes "PostForm req ''cert'' = Some (blob # rest)"
    and "DecodeString l blob = Some raw"
    and "ParsePublicKey l raw = Some (CertKey cert)"
    and "ValidPrincipals cert = []"
  shows "extractCertFromRequest l req auth = Inl PanicIndex"
  using assms by (simp add: extractCertFromRequest_def)

lemma create_missing_reason:
  assumes "formBoilerplate h req = Inr (config, env)"
    and "extractCertFromRequest l req (AuthorizedUsers config) = Inr cert"
    and "Form req ''reason'' = None"
  shows "createSigningRequest l h req requestID now = (Panic, h)"
  using assms by (simp add: createSigningRequest_def)

text \<open>
  C7. A create request with a configured environment and a valid certificate but no
  \<open>reason\<close> field should be answered with 400. The handler indexes
  \<open>req.Form["reason"]\<close> before any presence check (unlike \<open>environment\<close> and \<open>cert\<close>,
  which are checked first), so on this input it panics: no response is written. No
  record is inserted.
\<close>

theorem createSigningRequest_missing_reason_panics:
  "createSigningRequest exLib (makeCertRequestHandler exConfig)
     (formOf [(''environment'', ''prod''), (''cert'', ''request-U1'')]) exId 0
   = (Panic, makeCertRequestHandler exConfig)"
  by (rule create_missing_reason [where config = prodConfig and env = "''prod''"
        and cert = submittedCert])
     (simp_all add: formBoilerplate_def extractCertFromRequest_def makeCertRequestHandler_def
        ex_defs)

text \<open>
  C8. The validator should return an error for a blob that parses as a plain public key
  and for a certificate without principals. It asserts the parsed key to be a certificate
  without the checked form of the assertion, and indexes \<open>ValidPrincipals[0]\<close> without
  looking at the length, so it panics on both inputs, and so does the create handler
  that calls it.
\<close>

theorem extractCertFromRequest_panics:
  "extractCertFromRequest exLib (formOf [(''cert'', ''plain-U1'')]) (AuthorizedUsers prodConfig)
     = Inl PanicTypeAssertion \<and>
   extractCertFromRequest exLib (formOf [(''cert'', ''noprincipals-U1'')])
     (AuthorizedUsers prodConfig) = Inl PanicIndex \<and>
   createSigningRequest exLib (makeCertRequestHandler exConfig)
     (formOf [(''environment'', ''prod''), (''cert'', ''plain-U1''), (''reason'', ''deploy'')])
     exId 0 = (Panic, makeCertRequestHandler exConfig)"
proof -
  have a: "extractCertFromRequest exLib (formOf [(''cert'', ''plain-U1'')])
             (AuthorizedUsers prodConfig) = Inl PanicTypeAssertion"
    by (rule extract_plain_key [where blob = "''plain-U1''" and raw = "''plain-U1''"])
       (simp_all add: ex_defs)
  have b: "extractCertFromRequest exLib (formOf [(''cert'', ''noprincipals-U1'')])
             (AuthorizedUsers prodConfig) = Inl PanicIndex"
    by (rule extract_no_principals [where blob = "''noprincipals-U1''"
          and raw = "''noprincipals-U1''"
          and cert = "submittedCert\<lparr>ValidPrincipals := []\<rparr>"]) (simp_all add: ex_defs)
  have c: "createSigningRequest exLib (makeCertRequestHandler exConfig)
     (formOf [(''environment'', ''prod''), (''cert'', ''plain-U1''), (''reason'', ''deploy'')])
     exId 0 = (Panic, makeCertRequestHandler exConfig)"
    by (simp add: createSigningRequest_def formBoilerplate_def extractCertFromRequest_def
        makeCertRequestHandler_def ex_defs)
  from a b c show ?thesis by simp
qed

section \<open>Creating a request\<close>


lemma saveSigningRequest_unknown_fp:
  assumes "AuthorizedUsers config (MakeFingerprint l (SignatureKey cert)) = None"
  shows "saveSigningRequest l h config env rsn rid serial cert now =
     (Some (''Requester fingerprint ('' @ MakeFingerprint l (SignatureKey cert) @
            '') not found in config''), h)"
  using assms by (simp add: saveSigningRequest_def)

lemma saveSigningRequest_cases:
  assumes "saveSigningRequest l h config env rsn rid serial cert now = (res, h')"
  shows "(res \<noteq> None \<and> h' = h) \<or>
         (res = None \<and> serial \<noteq> 0 \<and> state h rid = None \<and>
          (\<exists>name. AuthorizedUsers config (MakeFingerprint l (SignatureKey cert)) = Some name \<and>
             h' = h\<lparr>state := (state h)(rid \<mapsto>
                    \<lparr>request = cert\<lparr>KeyId := name, Serial := serial\<rparr>, submitTime = now,
                     environment = env, signatures = Map.empty, certSigned = False,
                     reason = rsn\<rparr>)\<rparr>))"
  using assms
  by (auto simp: saveSigningRequest_def Let_def newcertRequest_def domIff
      split: option.splits if_splits)

lemma createSigningRequest_cases:
  assumes "createSigningRequest l h req requestID now = (resp, h')"
  shows "((\<forall>b. resp \<noteq> Response 201 b) \<and> state h' = state h \<and>
          (h' = h \<or> h' = h\<lparr>NextSerial := NextSerial h + 1\<rparr>)) \<or>
         (\<exists>config env cert name rsn b.
            resp = Response 201 b \<and> b = Base32EncodeToString l requestID \<and>
            formBoilerplate h req = Inr (config, env) \<and>
            extractCertFromRequest l req (AuthorizedUsers config) = Inr cert \<and>
            AuthorizedUsers config (MakeFingerprint l (SignatureKey cert)) = Some name \<and>
            NextSerial h \<noteq> 0 \<and> state h b = None \<and>
            h' = h\<lparr>NextSerial := NextSerial h + 1,
                   state := (state h)(b \<mapsto>
                    \<lparr>request = cert\<lparr>KeyId := name, Serial := NextSerial h\<rparr>, submitTime = now,
                     environment = env, signatures = Map.empty, certSigned = False,
                     reason = rsn\<rparr>)\<rparr>)"
proof (cases "formBoilerplate h req")
  case (Inl e)
  with assms show ?thesis
    by (cases e) (auto simp: createSigningRequest_def httpError_def)
next
  case (Inr p)
  obtain config env where p: "p = (config, env)" by (cases p)
  show ?thesis
  proof (cases "extractCertFromRequest l req (AuthorizedUsers config)")
    case (Inl e)
    with assms Inr p show ?thesis
      by (cases e) (auto simp: createSigningRequest_def httpError_def)
  next
    case (Inr cert)
    note ex = this
    show ?thesis
    proof (cases "\<exists>rsn rest. Form req ''reason'' = Some (rsn # rest) \<and> rsn \<noteq> []")
      case False
      with assms \<open>formBoilerplate h req = Inr p\<close> p ex show ?thesis
        by (auto simp: createSigningRequest_def httpError_def split: option.splits list.splits)
    next
      case True
      then obtain rsn rest where rs: "Form req ''reason'' = Some (rsn # rest)" "rsn \<noteq> []"
        by blast
      obtain res h2 where sv: "saveSigningRequest l (h\<lparr>NextSerial := NextSerial h + 1\<rparr>) config env rsn
          (Base32EncodeToString l requestID) (NextSerial h) cert now = (res, h2)"
        by (cases "saveSigningRequest l (h\<lparr>NextSerial := NextSerial h + 1\<rparr>) config env rsn
          (Base32EncodeToString l requestID) (NextSerial h) cert now")
      from assms \<open>formBoilerplate h req = Inr p\<close> p ex rs sv
      have out: "(resp, h') = (case res of Some e \<Rightarrow> (httpError (''Request not made: '' @ e) 400, h2)
                      | None \<Rightarrow> (Response 201 (Base32EncodeToString l requestID), h2))"
        by (simp add: createSigningRequest_def Let_def recvNextSerial_def split: option.splits)
      from saveSigningRequest_cases [OF sv] show ?thesis
      proof
        assume "res \<noteq> None \<and> h2 = h\<lparr>NextSerial := NextSerial h + 1\<rparr>"
        with out show ?thesis by (auto simp: httpError_def)
      next
        assume a: "res = None \<and> NextSerial h \<noteq> 0 \<and>
          state (h\<lparr>NextSerial := NextSerial h + 1\<rparr>) (Base32EncodeToString l requestID) = None \<and>
          (\<exists>name. AuthorizedUsers config (MakeFingerprint l (SignatureKey cert)) = Some name \<and>
             h2 = h\<lparr>NextSerial := NextSerial h + 1\<rparr>\<lparr>state := (state (h\<lparr>NextSerial := NextSerial h + 1\<rparr>))
                   (Base32EncodeToString l requestID \<mapsto>
                    \<lparr>request = cert\<lparr>KeyId := name, Serial := NextSerial h\<rparr>, submitTime = now,
                     environment = env, signatures = Map.empty, certSigned = False,
                     reason = rsn\<rparr>)\<rparr>)"
        then obtain name where n: "AuthorizedUsers config (MakeFingerprint l (SignatureKey cert)) = Some name"
          and h2: "h2 = h\<lparr>NextSerial := NextSerial h + 1,
                   state := (state h)(Base32EncodeToString l requestID \<mapsto>
                    \<lparr>request = cert\<lparr>KeyId := name, Serial := NextSerial h\<rparr>, submitTime = now,
                     environment = env, signatures = Map.empty, certSigned = False,
                     reason = rsn\<rparr>)\<rparr>" by auto
        from a out h2 have "resp = Response 201 (Base32EncodeToString l requestID)" "h' = h2" by auto
        with a n h2 \<open>formBoilerplate h req = Inr p\<close> p ex show ?thesis
          by (intro disjI2) (simp, blast)
      qed
    qed
  qed
qed

text \<open>
  C1. In every record that \<open>createSigningRequest\<close> stores, the certificate's \<open>KeyId\<close> is
  the name that the environment's \<open>AuthorizedUsers\<close> table gives for the fingerprint of
  the requester's signature key, whatever \<open>KeyId\<close> the submitted certificate carried; and
  when the fingerprint is not in the table, the request is not accepted and the store is
  unchanged.
\<close>

theorem createSigningRequest_stamps_keyid:
  assumes "createSigningRequest l h req requestID now = (resp, h')"
  shows "(\<forall>b. resp = Response 201 b \<longrightarrow>
            (\<exists>config env cert r.
               formBoilerplate h req = Inr (config, env) \<and>
               extractCertFromRequest l req (AuthorizedUsers config) = Inr cert \<and>
               state h b = None \<and> state h' b = Some r \<and>
               SignatureKey (request r) = SignatureKey cert \<and>
               AuthorizedUsers config (MakeFingerprint l (SignatureKey cert))
                 = Some (KeyId (request r)) \<and>
               request r = cert\<lparr>KeyId := KeyId (request r), Serial := NextSerial h\<rparr>)) \<and>
         (\<forall>config env cert.
            formBoilerplate h req = Inr (config, env) \<and>
            extractCertFromRequest l req (AuthorizedUsers config) = Inr cert \<and>
            AuthorizedUsers config (MakeFingerprint l (SignatureKey cert)) = None \<longrightarrow>
            (\<forall>b. resp \<noteq> Response 201 b) \<and> state h' = state h) \<and>
         (\<forall>config env rsn rid serial cert.
            AuthorizedUsers config (MakeFingerprint l (SignatureKey cert)) = None \<longrightarrow>
            fst (saveSigningRequest l h config env rsn rid serial cert now) \<noteq> None \<and>
            snd (saveSigningRequest l h config env rsn rid serial cert now) = h)"
proof (intro conjI allI impI)
  fix b assume "resp = Response 201 b"
  with createSigningRequest_cases [OF assms]
  show "\<exists>config env cert r.
               formBoilerplate h req = Inr (config, env) \<and>
               extractCertFromRequest l req (AuthorizedUsers config) = Inr cert \<and>
               state h b = None \<and> state h' b = Some r \<and>
               SignatureKey (request r) = SignatureKey cert \<and>
               AuthorizedUsers config (MakeFingerprint l (SignatureKey cert))
                 = Some (KeyId (request r)) \<and>
               request r = cert\<lparr>KeyId := KeyId (request r), Serial := NextSerial h\<rparr>"
    by auto
next
  fix config env cert b
  assume a: "formBoilerplate h req = Inr (config, env) \<and>
            extractCertFromRequest l req (AuthorizedUsers config) = Inr cert \<and>
            AuthorizedUsers config (MakeFingerprint l (SignatureKey cert)) = None"
  with createSigningRequest_cases [OF assms] show "resp \<noteq> Response 201 b" by auto
  from a createSigningRequest_cases [OF assms] show "state h' = state h" by auto
next
  fix config :: SignerdConfig and env rsn rid serial and cert :: certificate
  assume "AuthorizedUsers config (MakeFingerprint l (SignatureKey cert)) = None"
  then show "fst (saveSigningRequest l h config env rsn rid serial cert now) \<noteq> None"
    and "snd (saveSigningRequest l h config env rsn rid serial cert now) = h"
    by (simp_all add: saveSigningRequest_unknown_fp)
qed

theorem createSigningRequest_stamps_keyid_witness:
  "createSigningRequest exLib (makeCertRequestHandler exConfig)
     (formOf [(''environment'', ''prod''), (''cert'', ''request-U1''), (''reason'', ''deploy'')])
     exId 0 = (Response 201 exId, pendingHandler) \<and>
   KeyId submittedCert = ''mallory'' \<and>
   AuthorizedUsers prodConfig (MakeFingerprint exLib (SignatureKey submittedCert))
     = Some ''alice'' \<and>
   (\<exists>r. state pendingHandler exId = Some r \<and> KeyId (request r) = ''alice'') \<and>
   fst (createSigningRequest lenientLib (makeCertRequestHandler exConfig)
     (formOf [(''environment'', ''prod''), (''cert'', ''request-X''), (''reason'', ''deploy'')])
     exId 0) =
     httpError ''Request not made: Requester fingerprint (fp:X) not found in config'' 400 \<and>
   state (snd (createSigningRequest lenientLib (makeCertRequestHandler exConfig)
     (formOf [(''environment'', ''prod''), (''cert'', ''request-X''), (''reason'', ''deploy'')])
     exId 0)) = Map.empty"
proof -
  let ?h0 = "makeCertRequestHandler exConfig"
  let ?req = "formOf [(''environment'', ''prod''), (''cert'', ''request-U1''),
                      (''reason'', ''deploy'')]"
  let ?reqX = "formOf [(''environment'', ''prod''), (''cert'', ''request-X''),
                       (''reason'', ''deploy'')]"
  have c: "createSigningRequest exLib ?h0 ?req exId 0 = (Response 201 exId, pendingHandler)"
    by (simp add: createSigningRequest_def formBoilerplate_def extractCertFromRequest_def
        saveSigningRequest_def recvNextSerial_def makeCertRequestHandler_def
        newcertRequest_def Let_def ex_defs)
  have fb: "formBoilerplate ?h0 ?req = Inr (prodConfig, ''prod'')"
    and ex: "extractCertFromRequest exLib ?req (AuthorizedUsers prodConfig) = Inr submittedCert"
    by (simp_all add: formBoilerplate_def extractCertFromRequest_def makeCertRequestHandler_def
        ex_defs)
  from createSigningRequest_stamps_keyid [OF c]
  obtain config env cert r where
    r: "formBoilerplate ?h0 ?req = Inr (config, env)"
       "extractCertFromRequest exLib ?req (AuthorizedUsers config) = Inr cert"
       "state pendingHandler exId = Some r"
       "AuthorizedUsers config (MakeFingerprint exLib (SignatureKey cert))
          = Some (KeyId (request r))"
    by blast
  from r(1) fb have "config = prodConfig" by simp
  with r(2) ex have "cert = submittedCert" by simp
  with r(4) \<open>config = prodConfig\<close> have k: "KeyId (request r) = ''alice''"
    by (simp add: ex_defs)
  have x: "createSigningRequest lenientLib ?h0 ?reqX exId 0 =
     (httpError ''Request not made: Requester fingerprint (fp:X) not found in config'' 400,
      ?h0\<lparr>NextSerial := 2\<rparr>)"
    by (simp add: createSigningRequest_def formBoilerplate_def extractCertFromRequest_def
        saveSigningRequest_def recvNextSerial_def makeCertRequestHandler_def Let_def
        lenientLib_def ex_defs)
  have fbX: "formBoilerplate ?h0 ?reqX = Inr (prodConfig, ''prod'')"
    and exX: "extractCertFromRequest lenientLib ?reqX (AuthorizedUsers prodConfig) =
                Inr (submittedCert\<lparr>SignatureKey := ''X''\<rparr>)"
    and noX: "AuthorizedUsers prodConfig
                (MakeFingerprint lenientLib (SignatureKey (submittedCert\<lparr>SignatureKey := ''X''\<rparr>)))
              = None"
    by (simp_all add: formBoilerplate_def extractCertFromRequest_def makeCertRequestHandler_def
        lenientLib_def ex_defs)
  from createSigningRequest_stamps_keyid [OF x] fbX exX noX
  have "state (?h0\<lparr>NextSerial := 2\<rparr>) = state ?h0" by blast
  moreover have "state ?h0 = Map.empty" by (simp add: makeCertRequestHandler_def)
  moreover have "state (snd (createSigningRequest lenientLib ?h0 ?reqX exId 0)) =
      state (?h0\<lparr>NextSerial := 2\<rparr>)"
    by (simp only: x snd_conv)
  ultimately have sx: "state (snd (createSigningRequest lenientLib ?h0 ?reqX exId 0)) =
      Map.empty"
    by (simp only:)
  have "KeyId submittedCert = ''mallory''"
    "AuthorizedUsers prodConfig (MakeFingerprint exLib (SignatureKey submittedCert))
       = Some ''alice''"
    by (simp_all add: ex_defs)
  moreover have "fst (createSigningRequest lenientLib ?h0 ?reqX exId 0) =
      httpError ''Request not made: Requester fingerprint (fp:X) not found in config'' 400"
    by (simp only: x fst_conv)
  ultimately show ?thesis using c r(3) k sx by blast
qed

section \<open>Listing\<close>

lemma listLoop_no_filter:
  "listLoop l st [] ks (results, found) =
     ((\<lambda>k. if k \<in> set ks \<and> st k \<noteq> None
            then map_option (\<lambda>v. newResponseElement (environment v) (reason v)
                   (EncodeToString l (Marshal l (request v)))) (st k)
            else results k),
      found \<or> (\<exists>k \<in> set ks. st k \<noteq> None))"
proof (induction ks arbitrary: results found)
  case Nil
  then show ?case by simp
next
  case (Cons k ks)
  show ?case
  proof (cases "st k")
    case None
    then show ?thesis by (auto simp: Cons.IH fun_eq_iff)
  next
    case (Some v)
    then show ?thesis by (auto simp: Cons.IH fun_eq_iff Let_def)
  qed
qed

lemma listLoop_all:
  assumes "set ks = dom st"
  shows "listLoop l st [] ks (Map.empty, False) =
     ((\<lambda>k. map_option (\<lambda>v. newResponseElement (environment v) (reason v)
                   (EncodeToString l (Marshal l (request v)))) (st k)),
      st \<noteq> Map.empty)"
proof -
  have "(\<exists>k \<in> set ks. st k \<noteq> None) \<longleftrightarrow> st \<noteq> Map.empty"
    using assms by (auto simp: fun_eq_iff)
  moreover have "(\<lambda>k. if k \<in> set ks \<and> st k \<noteq> None
            then map_option (\<lambda>v. newResponseElement (environment v) (reason v)
                   (EncodeToString l (Marshal l (request v)))) (st k)
            else None) =
     (\<lambda>k. map_option (\<lambda>v. newResponseElement (environment v) (reason v)
                   (EncodeToString l (Marshal l (request v)))) (st k))"
    using assms by (auto simp: fun_eq_iff)
  ultimately show ?thesis by (simp add: listLoop_no_filter)
qed

text \<open>
  C10. A list request whose \<open>certRequestId\<close> parameter is present with the empty string
  as its value is not rejected with 400: the handler answers as it does without the
  parameter, with every stored record and 200 (when the JSON encoder succeeds), or 404
  when the store is empty.
\<close>

theorem listPendingRequests_empty_filter:
  assumes "ParseFormErr req = None"
    and "Form req ''certRequestId'' = Some ([] # rest)"
    and "set ks = dom (state h)"
  shows "listPendingRequests l h req ks =
           listPendingRequests l h (req\<lparr>Form := (Form req)(''certRequestId'' := None)\<rparr>) ks \<and>
         listPendingRequests l h req ks \<noteq> Panic \<and>
         status (listPendingRequests l h req ks) \<noteq> 400 \<and>
         (state h = Map.empty \<longrightarrow>
            listPendingRequests l h req ks = httpError ''No certs found.'' 404) \<and>
         (state h \<noteq> Map.empty \<longrightarrow>
            (\<forall>output.
               JsonMarshal l
                 (\<lambda>k. map_option
                        (\<lambda>v. newResponseElement (environment v) (reason v)
                               (EncodeToString l (Marshal l (request v))))
                        (state h k)) = Inr output \<longrightarrow>
               listPendingRequests l h req ks = Response 200 output))"
  using assms
  by (cases "state h = Map.empty")
     (auto simp: listPendingRequests_def listLoop_all httpError_def split: sum.splits)

theorem listPendingRequests_empty_filter_witness:
  "listPendingRequests exLib pendingHandler (formOf [(''certRequestId'', [])]) [exId] =
     Response 200 ''{...}'' \<and>
   listPendingRequests exLib pendingHandler
     ((formOf [(''certRequestId'', [])])\<lparr>Form := Map.empty\<rparr>) [exId] =
     Response 200 ''{...}'' \<and>
   listPendingRequests exLib (makeCertRequestHandler exConfig)
     (formOf [(''certRequestId'', [])]) [] = httpError ''No certs found.'' 404"
proof -
  let ?req = "formOf [(''certRequestId'', [])]"
  have 1: "ParseFormErr ?req = None"
    and 2: "Form ?req ''certRequestId'' = Some ([] # [])"
    and 3: "set [exId] = dom (state pendingHandler)"
    and 4: "set [] = dom (state (makeCertRequestHandler exConfig))"
    by (simp_all add: ex_defs makeCertRequestHandler_def)
  have 5: "(Form ?req)(''certRequestId'' := None) = Map.empty"
    by (simp add: formOf_def)
  have 6: "state pendingHandler \<noteq> Map.empty"
    and 7: "state (makeCertRequestHandler exConfig) = Map.empty"
    by (simp_all add: ex_defs makeCertRequestHandler_def)
  have 8: "JsonMarshal exLib
             (\<lambda>k. map_option
                    (\<lambda>v. newResponseElement (environment v) (reason v)
                           (EncodeToString exLib (Marshal exLib (request v))))
                    (state pendingHandler k)) = Inr ''{...}''"
    by (simp add: exLib_def)
  note p = listPendingRequests_empty_filter [OF 1 2 3, of exLib]
  note e = listPendingRequests_empty_filter [OF 1 2 4, of exLib]
  from p 6 8 have a: "listPendingRequests exLib pendingHandler ?req [exId] =
      Response 200 ''{...}''"
    by blast
  from p have "listPendingRequests exLib pendingHandler ?req [exId] =
      listPendingRequests exLib pendingHandler
        (?req\<lparr>Form := (Form ?req)(''certRequestId'' := None)\<rparr>) [exId]"
    by blast
  with a have b: "listPendingRequests exLib pendingHandler
      (?req\<lparr>Form := Map.empty\<rparr>) [exId] = Response 200 ''{...}''"
    by (simp only: 5)
  from e 7 have c: "listPendingRequests exLib (makeCertRequestHandler exConfig) ?req [] =
      httpError ''No certs found.'' 404"
    by blast
  from a b c show ?thesis by blast
qed

section \<open>The status endpoint\<close>

text \<open>
  C9. The status endpoint answers 200 with the type string, a space, the base64 wire form
  of the stored certificate and a newline exactly when the record's \<open>certSigned\<close> is
  true; for every other id, also one with no record, it answers 412 with
  "Cert not signed yet." and never 404.
\<close>

theorem getRequestStatus_latch:
  "(\<forall>r. state h requestID = Some r \<and> certSigned r \<longrightarrow>
      getRequestStatus l h requestID =
        Response 200 (Type l (request r) @ '' '' @
                      EncodeToString l (Marshal l (request r)) @ [CHR 0x0A])) \<and>
   ((\<nexists>r. state h requestID = Some r \<and> certSigned r) \<longrightarrow>
      getRequestStatus l h requestID = httpError ''Cert not signed yet.'' 412 \<and>
      status (getRequestStatus l h requestID) = 412) \<and>
   (status (getRequestStatus l h requestID) = 200 \<longleftrightarrow>
      (\<exists>r. state h requestID = Some r \<and> certSigned r)) \<and>
   getRequestStatus l h requestID \<noteq> Panic \<and>
   status (getRequestStatus l h requestID) \<noteq> 404"
  by (auto simp: getRequestStatus_def httpError_def split: option.splits)

theorem getRequestStatus_latch_witness:
  "getRequestStatus exLib signedHandler exId =
     Response 200 (''ssh-rsa-cert-v01@openssh.com n-CA|userkey|alice|ec2-user|CA|sig-CA'' @
                   [CHR 0x0A]) \<and>
   getRequestStatus exLib pendingHandler exId = httpError ''Cert not signed yet.'' 412 \<and>
   getRequestStatus exLib pendingHandler ''BBBBBBBBBBBBBBBB'' =
     httpError ''Cert not signed yet.'' 412"
  using getRequestStatus_latch [of signedHandler exId exLib]
    getRequestStatus_latch [of pendingHandler exId exLib]
    getRequestStatus_latch [of pendingHandler "''BBBBBBBBBBBBBBBB''" exLib]
  by (simp add: ex_defs)

section \<open>Endorsements\<close>

lemma signRequest_mismatch:
  assumes "state h requestID = Some r"
    and "ParseFormErr req = None"
    and "Config h (environment r) = Some cfg"
    and "extractCertFromRequest l req (AuthorizedSigners cfg) = Inr c"
    and "Marshal l ((request r)\<lparr>Signature := None, Nonce := []\<rparr>) \<noteq>
         Marshal l (c\<lparr>SignatureKey := SignatureKey (request r), Signature := None,
                      Nonce := []\<rparr>)"
  shows "signRequest l h requestID req nonce =
           (httpError ''Signature was valid, but cert didn't match.'' 400,
            h\<lparr>state := (state h)(requestID \<mapsto>
                 r\<lparr>request := (request r)\<lparr>Signature := None, Nonce := []\<rparr>\<rparr>)\<rparr>)"
  using assms by (simp add: signRequest_def Let_def)

lemma signRequest_match_below:
  assumes "state h requestID = Some r"
    and "ParseFormErr req = None"
    and "Config h (environment r) = Some cfg"
    and "extractCertFromRequest l req (AuthorizedSigners cfg) = Inr c"
    and "Marshal l ((request r)\<lparr>Signature := None, Nonce := []\<rparr>) =
         Marshal l (c\<lparr>SignatureKey := SignatureKey (request r), Signature := None,
                      Nonce := []\<rparr>)"
    and "int (card (dom ((signatures r)(MakeFingerprint l (SignatureKey c) \<mapsto> True))))
           < NumberSignersRequired cfg"
  shows "signRequest l h requestID req nonce =
           (Response 200 [],
            h\<lparr>state := (state h)(requestID \<mapsto>
                 r\<lparr>request := (request r)\<lparr>Signature := None, Nonce := []\<rparr>,
                   signatures := (signatures r)(MakeFingerprint l (SignatureKey c) \<mapsto> True)\<rparr>)\<rparr>)"
  using assms by (simp add: signRequest_def Let_def)

text \<open>What the example's forged and genuine endorsements parse to.\<close>

lemma ex_forged:
  "state pendingHandler exId = Some pendingRecord"
  "state signedHandler exId = Some signedRecord"
  "ParseFormErr (formOf kvs) = None"
  "Config pendingHandler (environment pendingRecord) = Some prodConfig"
  "Config signedHandler (environment signedRecord) = Some prodConfig"
  "extractCertFromRequest exLib (formOf [(''cert'', ''forged-S1'')])
     (AuthorizedSigners prodConfig) =
   Inr (endorsedBy ''S1'' (acceptedCert\<lparr>ValidPrincipals := [''root'']\<rparr>))"
  "extractCertFromRequest exLib (formOf [(''cert'', ''endorsed-S1'')])
     (AuthorizedSigners prodConfig) = Inr (endorsedBy ''S1'' acceptedCert)"
  by (simp_all add: extractCertFromRequest_def ex_defs)

text \<open>
  C2. When the stored record exists, the submission passes the validator, and the wire
  form of the submitted certificate differs from that of the stored one after
  \<open>Signature\<close>, \<open>Nonce\<close> and \<open>SignatureKey\<close> are normalised, \<open>signRequest\<close> answers 400
  with "Signature was valid, but cert didn't match." and the record's endorser set is
  as before (and nothing is asked of the agent).
\<close>

theorem signRequest_rejects_other_cert:
  assumes "state h requestID = Some r"
    and "ParseFormErr req = None"
    and "Config h (environment r) = Some cfg"
    and "extractCertFromRequest l req (AuthorizedSigners cfg) = Inr c"
    and "Marshal l ((request r)\<lparr>Signature := None, Nonce := []\<rparr>) \<noteq>
         Marshal l (c\<lparr>SignatureKey := SignatureKey (request r), Signature := None,
                      Nonce := []\<rparr>)"
  shows "fst (signRequest l h requestID req nonce) =
           httpError ''Signature was valid, but cert didn't match.'' 400 \<and>
         status (fst (signRequest l h requestID req nonce)) = 400 \<and>
         (\<exists>r'. state (snd (signRequest l h requestID req nonce)) requestID = Some r' \<and>
               signatures r' = signatures r \<and> certSigned r' = certSigned r) \<and>
         sshAgentConn (snd (signRequest l h requestID req nonce)) = sshAgentConn h"
  using signRequest_mismatch [OF assms] by (simp add: httpError_def)

theorem signRequest_rejects_other_cert_witness:
  "fst (signRequest exLib pendingHandler exId (formOf [(''cert'', ''forged-S1'')]) ''n9'') =
      httpError ''Signature was valid, but cert didn't match.'' 400 \<and>
   signatures (the (state (snd (signRequest exLib pendingHandler exId
      (formOf [(''cert'', ''forged-S1'')]) ''n9'')) exId)) = Map.empty"
proof -
  have ne: "Marshal exLib ((request pendingRecord)\<lparr>Signature := None, Nonce := []\<rparr>) \<noteq>
      Marshal exLib ((endorsedBy ''S1'' (acceptedCert\<lparr>ValidPrincipals := [''root'']\<rparr>))
        \<lparr>SignatureKey := SignatureKey (request pendingRecord), Signature := None,
         Nonce := []\<rparr>)"
    by (simp add: ex_defs)
  from signRequest_rejects_other_cert
         [OF ex_forged(1) ex_forged(3) ex_forged(4) ex_forged(6) ne, of "''n9''"]
  show ?thesis by (auto simp: ex_defs)
qed

text \<open>
  C3 as the code has it. The comparison works on the stored certificate itself, not on a
  copy: after an endorsement attempt that the byte comparison rejects, the stored
  certificate is the previous one with \<open>Signature\<close> cleared and \<open>Nonce\<close> empty. Every
  other field of the certificate, of the record and of the handler is unchanged.
\<close>

theorem signRequest_rejection_clears_signature:
  assumes "state h requestID = Some r"
    and "ParseFormErr req = None"
    and "Config h (environment r) = Some cfg"
    and "extractCertFromRequest l req (AuthorizedSigners cfg) = Inr c"
    and "Marshal l ((request r)\<lparr>Signature := None, Nonce := []\<rparr>) \<noteq>
         Marshal l (c\<lparr>SignatureKey := SignatureKey (request r), Signature := None,
                      Nonce := []\<rparr>)"
  shows "snd (signRequest l h requestID req nonce) =
           h\<lparr>state := (state h)(requestID \<mapsto>
                r\<lparr>request := (request r)\<lparr>Signature := None, Nonce := []\<rparr>\<rparr>)\<rparr>"
  using signRequest_mismatch [OF assms] by simp

theorem signRequest_rejection_clears_signature_witness:
  "snd (signRequest exLib pendingHandler exId (formOf [(''cert'', ''forged-S1'')]) ''n9'') =
     pendingHandler\<lparr>state := [exId \<mapsto>
        pendingRecord\<lparr>request := acceptedCert\<lparr>Signature := None, Nonce := []\<rparr>\<rparr>]\<rparr>"
proof -
  have ne: "Marshal exLib ((request pendingRecord)\<lparr>Signature := None, Nonce := []\<rparr>) \<noteq>
      Marshal exLib ((endorsedBy ''S1'' (acceptedCert\<lparr>ValidPrincipals := [''root'']\<rparr>))
        \<lparr>SignatureKey := SignatureKey (request pendingRecord), Signature := None,
         Nonce := []\<rparr>)"
    by (simp add: ex_defs)
  from signRequest_rejection_clears_signature
         [OF ex_forged(1) ex_forged(3) ex_forged(4) ex_forged(6) ne, of "''n9''"]
  show ?thesis by (simp add: ex_defs)
qed

text \<open>
  C3 as stated fails: the pending request of the example holds the requester's signature
  and nonce; after a rejected endorsement both are gone from the store.
\<close>

theorem signRequest_rejection_mutates_stored_cert:
  "fst (signRequest exLib pendingHandler exId (formOf [(''cert'', ''forged-S1'')]) ''n9'') =
     httpError ''Signature was valid, but cert didn't match.'' 400 \<and>
   Signature (request (the (state pendingHandler exId))) =
     Some \<lparr>Format = ''ssh-rsa'', Blob = ''sigU1''\<rparr> \<and>
   Nonce (request (the (state pendingHandler exId))) = ''n0'' \<and>
   Signature (request (the (state (snd (signRequest exLib pendingHandler exId
     (formOf [(''cert'', ''forged-S1'')]) ''n9'')) exId))) = None \<and>
   Nonce (request (the (state (snd (signRequest exLib pendingHandler exId
     (formOf [(''cert'', ''forged-S1'')]) ''n9'')) exId))) = []"
  by (simp add: signRequest_def extractCertFromRequest_def Let_def ex_defs)

text \<open>
  C5. Two successive valid endorsements of the stored certificate by the same signer
  fingerprint, on a record that stays below the quorum, both answer 200; the second one
  changes nothing at all, so the endorser count does not grow (it is 1 when the record
  had no endorser before), and nothing is asked of the agent.
\<close>

theorem signRequest_idempotent:
  assumes "state h requestID = Some r"
    and "ParseFormErr req1 = None" and "ParseFormErr req2 = None"
    and "Config h (environment r) = Some cfg"
    and "extractCertFromRequest l req1 (AuthorizedSigners cfg) = Inr c1"
    and "extractCertFromRequest l req2 (AuthorizedSigners cfg) = Inr c2"
    and "MakeFingerprint l (SignatureKey c2) = MakeFingerprint l (SignatureKey c1)"
    and "Marshal l ((request r)\<lparr>Signature := None, Nonce := []\<rparr>) =
         Marshal l (c1\<lparr>SignatureKey := SignatureKey (request r), Signature := None,
                       Nonce := []\<rparr>)"
    and "Marshal l ((request r)\<lparr>Signature := None, Nonce := []\<rparr>) =
         Marshal l (c2\<lparr>SignatureKey := SignatureKey (request r), Signature := None,
                       Nonce := []\<rparr>)"
    and "int (card (dom ((signatures r)(MakeFingerprint l (SignatureKey c1) \<mapsto> True))))
           < NumberSignersRequired cfg"
  shows "(case signRequest l h requestID req1 n1 of (resp1, h1) \<Rightarrow>
          case signRequest l h1 requestID req2 n2 of (resp2, h2) \<Rightarrow>
            resp1 = Response 200 [] \<and> resp2 = Response 200 [] \<and> h2 = h1 \<and>
            sshAgentConn h2 = sshAgentConn h \<and>
            (\<exists>r1. state h1 requestID = Some r1 \<and>
               dom (signatures r1) =
                 insert (MakeFingerprint l (SignatureKey c1)) (dom (signatures r)) \<and>
               certSigned r1 = certSigned r \<and>
               (signatures r = Map.empty \<longrightarrow> card (dom (signatures r1)) = 1)))"
proof -
  let ?fp = "MakeFingerprint l (SignatureKey c1)"
  let ?r1 = "r\<lparr>request := (request r)\<lparr>Signature := None, Nonce := []\<rparr>,
                signatures := (signatures r)(?fp \<mapsto> True)\<rparr>"
  let ?h1 = "h\<lparr>state := (state h)(requestID \<mapsto> ?r1)\<rparr>"
  have first: "signRequest l h requestID req1 n1 = (Response 200 [], ?h1)"
    using assms by (intro signRequest_match_below) simp_all
  have "signRequest l ?h1 requestID req2 n2 =
      (Response 200 [], ?h1\<lparr>state := (state ?h1)(requestID \<mapsto>
          ?r1\<lparr>request := (request ?r1)\<lparr>Signature := None, Nonce := []\<rparr>,
            signatures := (signatures ?r1)(MakeFingerprint l (SignatureKey c2) \<mapsto> True)\<rparr>)\<rparr>)"
    using assms by (intro signRequest_match_below [where cfg = cfg]) simp_all
  then have second: "signRequest l ?h1 requestID req2 n2 = (Response 200 [], ?h1)"
    using assms(7) by simp
  show ?thesis by (simp add: first second)
qed

theorem signRequest_idempotent_witness:
  "fst (signRequest exLib pendingHandler exId (formOf [(''cert'', ''endorsed-S1'')]) ''n1'')
     = Response 200 [] \<and>
   signRequest exLib
     (snd (signRequest exLib pendingHandler exId (formOf [(''cert'', ''endorsed-S1'')]) ''n1''))
     exId (formOf [(''cert'', ''endorsed-S1'')]) ''n2'' =
   (Response 200 [],
    snd (signRequest exLib pendingHandler exId (formOf [(''cert'', ''endorsed-S1'')]) ''n1'')) \<and>
   card (dom (signatures (the (state
     (snd (signRequest exLib pendingHandler exId (formOf [(''cert'', ''endorsed-S1'')]) ''n1''))
     exId)))) = 1 \<and>
   sshAgentConn
     (snd (signRequest exLib pendingHandler exId (formOf [(''cert'', ''endorsed-S1'')]) ''n1''))
     = []"
proof -
  have eq: "Marshal exLib ((request pendingRecord)\<lparr>Signature := None, Nonce := []\<rparr>) =
      Marshal exLib ((endorsedBy ''S1'' acceptedCert)
        \<lparr>SignatureKey := SignatureKey (request pendingRecord), Signature := None,
         Nonce := []\<rparr>)"
    by (simp add: ex_defs)
  have below: "int (card (dom ((signatures pendingRecord)
      (MakeFingerprint exLib (SignatureKey (endorsedBy ''S1'' acceptedCert)) \<mapsto> True))))
        < NumberSignersRequired prodConfig"
    by (simp add: ex_defs)
  have none: "signatures pendingRecord = Map.empty" "sshAgentConn pendingHandler = []"
    by (simp_all add: ex_defs)
  from signRequest_idempotent
         [where ?n1.0 = "''n1''" and ?n2.0 = "''n2''",
          OF ex_forged(1) ex_forged(3) ex_forged(3) ex_forged(4) ex_forged(7) ex_forged(7)
             refl eq eq below] none
  show ?thesis by (auto split: prod.splits)
qed

text \<open>
  C4 as the code has it. The flag \<open>certSigned\<close> is never reset: after any call of
  \<open>signRequest\<close> for a record whose flag is set, the record is still there with the flag
  set, the same environment, reason and submit time, no endorser removed, and a
  certificate that agrees with the previous one in every field except \<open>Nonce\<close>,
  \<open>SignatureKey\<close> and \<open>Signature\<close>.
\<close>

theorem signRequest_keeps_latch:
  assumes "state h requestID = Some r" and "certSigned r"
  shows "\<exists>r'. state (snd (signRequest l h requestID req nonce)) requestID = Some r' \<and>
           certSigned r' \<and> environment r' = environment r \<and> reason r' = reason r \<and>
           submitTime r' = submitTime r \<and> dom (signatures r) \<subseteq> dom (signatures r') \<and>
           (request r')\<lparr>Nonce := [], SignatureKey := [], Signature := None\<rparr> =
           (request r)\<lparr>Nonce := [], SignatureKey := [], Signature := None\<rparr>"
  using assms
  by (auto simp: signRequest_def Let_def SignCert_def
      split: option.splits sum.splits error.splits)

theorem signRequest_keeps_latch_witness:
  "certSigned (the (state signedHandler exId)) \<and>
   certSigned (the (state (snd (signRequest exLib signedHandler exId
      (formOf [(''cert'', ''endorsed-S3'')]) ''n-2'')) exId)) \<and>
   KeyId (request (the (state (snd (signRequest exLib signedHandler exId
      (formOf [(''cert'', ''endorsed-S3'')]) ''n-2'')) exId))) = ''alice''"
proof -
  have s: "certSigned signedRecord" "KeyId (request signedRecord) = ''alice''"
    by (simp_all add: ex_defs)
  from signRequest_keeps_latch [OF ex_forged(2) s(1), of exLib
         "formOf [(''cert'', ''endorsed-S3'')]" "''n-2''"]
  obtain r' where r': "state (snd (signRequest exLib signedHandler exId
      (formOf [(''cert'', ''endorsed-S3'')]) ''n-2'')) exId = Some r'" "certSigned r'"
    "(request r')\<lparr>Nonce := [], SignatureKey := [], Signature := None\<rparr> =
     (request signedRecord)\<lparr>Nonce := [], SignatureKey := [], Signature := None\<rparr>"
    by blast
  have "KeyId ((request r')\<lparr>Nonce := [], SignatureKey := [], Signature := None\<rparr>) =
        KeyId ((request signedRecord)\<lparr>Nonce := [], SignatureKey := [], Signature := None\<rparr>)"
    by (simp only: r'(3))
  then have "KeyId (request r') = KeyId (request signedRecord)" by simp
  with r' s ex_forged(2) show ?thesis by simp
qed

text \<open>
  C4 as stated fails: on the signed record of the example, a further endorsement by a
  third authorized signer is accepted, adds that signer to the endorser set, asks the
  agent to sign again and replaces the stored certificate's nonce; and an endorsement
  that is rejected strips the CA's signature from the stored certificate.
\<close>

theorem signRequest_after_latch_mutates:
  "certSigned (the (state signedHandler exId)) \<and>
   signatures (the (state signedHandler exId)) = [''fp:S1'' \<mapsto> True, ''fp:S2'' \<mapsto> True] \<and>
   Nonce (request (the (state signedHandler exId))) = ''n-CA'' \<and>
   Signature (request (the (state signedHandler exId))) =
     Some \<lparr>Format = ''ssh-rsa'', Blob = ''sig-CA''\<rparr> \<and>
   signRequest exLib signedHandler exId (formOf [(''cert'', ''endorsed-S3'')]) ''n-2'' =
     (Response 200 [],
      signedHandler\<lparr>
        sshAgentConn := sshAgentConn signedHandler @
          [AgentFindKey ''fp:CA'',
           AgentSignCert ''CA'' (signedCert\<lparr>Signature := None, Nonce := ''n-2''\<rparr>)],
        state := [exId \<mapsto> signedRecord\<lparr>
          request := signedCert\<lparr>Nonce := ''n-2''\<rparr>,
          signatures := [''fp:S1'' \<mapsto> True, ''fp:S2'' \<mapsto> True, ''fp:S3'' \<mapsto> True]\<rparr>]\<rparr>) \<and>
   signRequest exLib signedHandler exId (formOf [(''cert'', ''forged-S1'')]) ''n-3'' =
     (httpError ''Signature was valid, but cert didn't match.'' 400,
      signedHandler\<lparr>state := [exId \<mapsto> signedRecord\<lparr>
          request := signedCert\<lparr>Signature := None, Nonce := []\<rparr>\<rparr>]\<rparr>)"
  by (simp add: signRequest_def extractCertFromRequest_def SignCert_def Let_def ex_defs)

section \<open>Serial numbers\<close>

lemma recvMany_length: "length (recvMany n h) = n"
  by (induction n arbitrary: h) (simp_all add: recvNextSerial_def)

lemma recvMany_nth: "i < n \<Longrightarrow> recvMany n h ! i = NextSerial h + of_nat i"
proof (induction n arbitrary: h i)
  case 0
  then show ?case by simp
next
  case (Suc n)
  show ?case
  proof (cases i)
    case 0
    then show ?thesis by (simp add: recvNextSerial_def)
  next
    case (Suc j)
    with Suc.prems have "j < n" by simp
    from Suc.IH [OF this, of "h\<lparr>NextSerial := NextSerial h + 1\<rparr>"] Suc
    show ?thesis by (simp add: recvNextSerial_def add.assoc)
  qed
qed

lemma recvMany_unat:
  assumes "n < 2 ^ 64"
  shows "map unat (recvMany n (makeCertRequestHandler config)) = [1..<Suc n]"
proof (rule nth_equalityI)
  show "length (map unat (recvMany n (makeCertRequestHandler config))) = length [1..<Suc n]"
    by (simp add: recvMany_length)
next
  fix i assume "i < length (map unat (recvMany n (makeCertRequestHandler config)))"
  then have i: "i < n" by (simp add: recvMany_length)
  then have "recvMany n (makeCertRequestHandler config) ! i = (of_nat (Suc i) :: 64 word)"
    by (simp add: recvMany_nth makeCertRequestHandler_def)
  moreover from i assms have "Suc i < 2 ^ 64" by simp
  then have "unat (of_nat (Suc i) :: 64 word) = Suc i"
    by (simp add: unat_of_nat del: of_nat_Suc)
  moreover have "[1..<Suc n] ! i = Suc i"
    using i by (simp add: nth_upt del: upt_Suc)
  ultimately show "map unat (recvMany n (makeCertRequestHandler config)) ! i = [1..<Suc n] ! i"
    using i by (simp add: recvMany_length del: of_nat_Suc upt_Suc)
qed


lemma of_nat_64_inj:
  assumes "i < 2 ^ 64" and "j < 2 ^ 64" and "(of_nat i :: 64 word) = of_nat j"
  shows "i = j"
proof -
  from assms(3) have "unat (of_nat i :: 64 word) = unat (of_nat j :: 64 word)" by simp
  with assms(1,2) show ?thesis by (simp add: unat_of_nat)
qed

lemma signRequest_serials:
  assumes "signRequest l h requestID req nonce = (resp, h')"
  shows "NextSerial h' = NextSerial h \<and>
         (\<forall>k. (state h' k = None \<longleftrightarrow> state h k = None) \<and>
              (\<forall>r'. state h' k = Some r' \<longrightarrow>
                 (\<exists>r. state h k = Some r \<and> Serial (request r') = Serial (request r))))"
  using assms
  by (auto simp: signRequest_def Let_def SignCert_def
      split: option.splits sum.splits error.splits if_splits)

lemma serve_serials:
  assumes "serve l h c = (resp, h')"
  shows "(NextSerial h' = NextSerial h \<and>
          (\<forall>k. (state h' k = None \<longleftrightarrow> state h k = None) \<and>
              (\<forall>r'. state h' k = Some r' \<longrightarrow>
                 (\<exists>r. state h k = Some r \<and> Serial (request r') = Serial (request r))))) \<or>
         (NextSerial h' = NextSerial h + 1 \<and> state h' = state h) \<or>
         (NextSerial h' = NextSerial h + 1 \<and> NextSerial h \<noteq> 0 \<and>
          (\<exists>b r. state h b = None \<and> state h' = (state h)(b \<mapsto> r) \<and>
                 Serial (request r) = NextSerial h))"
proof (cases c)
  case (PostRequests req requestID now)
  with assms have "createSigningRequest l h req requestID now = (resp, h')" by simp
  from createSigningRequest_cases [OF this] show ?thesis
    by (elim disjE conjE exE) (simp, simp, (rule disjI2, rule disjI2, force))
next
  case (GetRequests req ks)
  with assms show ?thesis by auto
next
  case (GetRequest requestID)
  with assms show ?thesis by auto
next
  case (PostRequest requestID req nonce)
  with assms have "signRequest l h requestID req nonce = (resp, h')" by simp
  from signRequest_serials [OF this] show ?thesis by blast
qed

lemma serve_serialInv:
  assumes inv: "serialInv k h" and k: "Suc k < 2 ^ 64"
  shows "serialInv k (snd (serve l h c)) \<or> serialInv (Suc k) (snd (serve l h c))"
proof -
  obtain resp h' where s: "serve l h c = (resp, h')" by (cases "serve l h c")
  from serve_serials [OF s] consider
    (same) "NextSerial h' = NextSerial h"
      "\<forall>k. (state h' k = None \<longleftrightarrow> state h k = None) \<and>
              (\<forall>r'. state h' k = Some r' \<longrightarrow>
                 (\<exists>r. state h k = Some r \<and> Serial (request r') = Serial (request r)))"
  | (skip) "NextSerial h' = NextSerial h + 1" "state h' = state h"
  | (new) b r where "NextSerial h' = NextSerial h + 1" "state h b = None"
      "state h' = (state h)(b \<mapsto> r)" "Serial (request r) = NextSerial h"
    by blast
  then show ?thesis
  proof cases
    case same
    have "serialInv k h'"
      unfolding serialInv_def
    proof (intro conjI allI impI)
      show "NextSerial h' = of_nat (Suc k)" using same(1) inv by (simp add: serialInv_def)
    next
      fix id r' assume "state h' id = Some r'"
      with same(2) obtain r where "state h id = Some r" "Serial (request r') = Serial (request r)"
        by blast
      with inv show "\<exists>j. 0 < j \<and> j \<le> k \<and> Serial (request r') = of_nat j"
        unfolding serialInv_def by metis
    next
      fix id id' r r'
      assume a: "id \<noteq> id' \<and> state h' id = Some r \<and> state h' id' = Some r'"
      with same(2) obtain q q' where q: "state h id = Some q" "Serial (request r) = Serial (request q)"
        "state h id' = Some q'" "Serial (request r') = Serial (request q')"
        by blast
      with a inv have "Serial (request q) \<noteq> Serial (request q')"
        unfolding serialInv_def by blast
      with q show "Serial (request r) \<noteq> Serial (request r')" by simp
    qed
    with s show ?thesis by simp
  next
    case skip
    have "serialInv (Suc k) h'"
      unfolding serialInv_def
    proof (intro conjI allI impI)
      show "NextSerial h' = of_nat (Suc (Suc k))" using skip(1) inv by (simp add: serialInv_def)
    next
      fix id r' assume "state h' id = Some r'"
      with skip(2) inv obtain j where "0 < j" "j \<le> k" "Serial (request r') = of_nat j"
        unfolding serialInv_def by metis
      then show "\<exists>j. 0 < j \<and> j \<le> Suc k \<and> Serial (request r') = of_nat j"
        by (intro exI [of _ j]) simp
    next
      fix id id' r r'
      assume "id \<noteq> id' \<and> state h' id = Some r \<and> state h' id' = Some r'"
      with skip(2) inv show "Serial (request r) \<noteq> Serial (request r')"
        unfolding serialInv_def by metis
    qed
    with s show ?thesis by simp
  next
    case new
    from inv new(4) have ser: "Serial (request r) = of_nat (Suc k)" by (simp add: serialInv_def)
    have old: "\<exists>j. 0 < j \<and> j \<le> k \<and> Serial (request q) = of_nat j" if "state h id = Some q" for id q
      using that inv unfolding serialInv_def by blast
    have fresh: "Serial (request q) \<noteq> Serial (request r)" if "state h id = Some q" for id q
    proof
      assume e: "Serial (request q) = Serial (request r)"
      from old [OF that] obtain j where j: "0 < j" "j \<le> k" "Serial (request q) = of_nat j" by blast
      with e ser have "(of_nat j :: 64 word) = of_nat (Suc k)" by simp
      moreover from j k have "j < 2 ^ 64" by simp
      ultimately have "j = Suc k" using k by (rule of_nat_64_inj [rotated 2])
      with j show False by simp
    qed
    have "serialInv (Suc k) h'"
      unfolding serialInv_def
    proof (intro conjI allI impI)
      show "NextSerial h' = of_nat (Suc (Suc k))" using new(1) inv by (simp add: serialInv_def)
    next
      fix id r' assume a: "state h' id = Some r'"
      show "\<exists>j. 0 < j \<and> j \<le> Suc k \<and> Serial (request r') = of_nat j"
      proof (cases "id = b")
        case True
        with a new(3) have "r' = r" by simp
        with ser show ?thesis by (intro exI [of _ "Suc k"]) simp
      next
        case False
        with a new(3) have "state h id = Some r'" by simp
        from old [OF this] obtain j where "0 < j" "j \<le> k" "Serial (request r') = of_nat j"
          by blast
        then show ?thesis by (intro exI [of _ j]) simp
      qed
    next
      fix id id' q q'
      assume a: "id \<noteq> id' \<and> state h' id = Some q \<and> state h' id' = Some q'"
      show "Serial (request q) \<noteq> Serial (request q')"
      proof (cases "id = b")
        case True
        with a new(3) have "q = r" "state h id' = Some q'" by auto
        with fresh [of id' q'] show ?thesis by simp
      next
        case False
        note nb = this
        show ?thesis
        proof (cases "id' = b")
          case True
          with a new(3) nb have "q' = r" "state h id = Some q" by auto
          with fresh [of id q] show ?thesis by simp
        next
          case False
          with a new(3) nb have "state h id = Some q" "state h id' = Some q'" by auto
          with a inv show ?thesis unfolding serialInv_def by blast
        qed
      qed
    qed
    with s show ?thesis by simp
  qed
qed

lemma serveAll_serialInv:
  assumes "serialInv k h" and "k + length calls < 2 ^ 64"
  shows "\<exists>k'. serialInv k' (serveAll l h calls)"
  using assms
proof (induction calls arbitrary: h k)
  case Nil
  then show ?case by auto
next
  case (Cons c calls)
  from Cons.prems have k: "Suc k < 2 ^ 64" by simp
  from serve_serialInv [OF Cons.prems(1) k, of l c]
  show ?case
  proof
    assume "serialInv k (snd (serve l h c))"
    from Cons.IH [OF this] Cons.prems(2) show ?thesis by simp
  next
    assume "serialInv (Suc k) (snd (serve l h c))"
    from Cons.IH [OF this] Cons.prems(2) show ?thesis by simp
  qed
qed

lemma serveAll_nonzero:
  assumes "\<forall>id r. state h id = Some r \<longrightarrow> Serial (request r) \<noteq> 0"
  shows "\<forall>id r. state (serveAll l h calls) id = Some r \<longrightarrow> Serial (request r) \<noteq> 0"
  using assms
proof (induction calls arbitrary: h)
  case Nil
  then show ?case by simp
next
  case (Cons c calls)
  obtain resp h' where s: "serve l h c = (resp, h')" by (cases "serve l h c")
  have "\<forall>id r. state h' id = Some r \<longrightarrow> Serial (request r) \<noteq> 0"
    using serve_serials [OF s] Cons.prems
    by (elim disjE conjE exE) (metis, metis, metis fun_upd_apply option.inject)
  from Cons.IH [OF this] s show ?case by simp
qed

lemma saveSigningRequest_zero_serial:
  "fst (saveSigningRequest l h config env rsn rid 0 cert now) \<noteq> None \<and>
   snd (saveSigningRequest l h config env rsn rid 0 cert now) = h"
  by (simp add: saveSigningRequest_def Let_def split: option.splits)

text \<open>
  C6 as the code has it. The counter behind the channel is a \<open>uint64\<close>: the first
  \<open>2^64 - 1\<close> values received are 1, 2, 3, ... (strictly increasing and positive, one per
  receive). In every state reached from a fresh handler by fewer than \<open>2^64\<close> requests,
  distinct stored records carry distinct serials. Stored serials are nonzero in every
  reachable state, since \<open>saveSigningRequest\<close> rejects the serial 0 and leaves the
  handler as it was.
\<close>

theorem serials_until_wrap:
  "(n < 2 ^ 64 \<longrightarrow>
      map unat (recvMany n (makeCertRequestHandler config)) = [1..<Suc n]) \<and>
   (length calls < 2 ^ 64 \<longrightarrow>
      (\<forall>id id' r r'.
         id \<noteq> id' \<and> state (serveAll l (makeCertRequestHandler config) calls) id = Some r \<and>
         state (serveAll l (makeCertRequestHandler config) calls) id' = Some r' \<longrightarrow>
         Serial (request r) \<noteq> Serial (request r'))) \<and>
   (\<forall>id r. state (serveAll l (makeCertRequestHandler config) calls) id = Some r \<longrightarrow>
      Serial (request r) \<noteq> 0) \<and>
   fst (saveSigningRequest l h cfg env rsn rid 0 cert now) \<noteq> None \<and>
   snd (saveSigningRequest l h cfg env rsn rid 0 cert now) = h"
proof -
  have init: "serialInv 0 (makeCertRequestHandler config)"
    by (simp add: serialInv_def makeCertRequestHandler_def)
  have "\<forall>id id' r r'.
         id \<noteq> id' \<and> state (serveAll l (makeCertRequestHandler config) calls) id = Some r \<and>
         state (serveAll l (makeCertRequestHandler config) calls) id' = Some r' \<longrightarrow>
         Serial (request r) \<noteq> Serial (request r')" if "length calls < 2 ^ 64"
  proof -
    from serveAll_serialInv [OF init, of calls l] that
    obtain k' where "serialInv k' (serveAll l (makeCertRequestHandler config) calls)" by auto
    then show ?thesis unfolding serialInv_def by blast
  qed
  moreover have "\<forall>id r. state (serveAll l (makeCertRequestHandler config) calls) id = Some r \<longrightarrow>
      Serial (request r) \<noteq> 0"
    by (rule serveAll_nonzero) (simp add: makeCertRequestHandler_def)
  ultimately show ?thesis
    using recvMany_unat [of n config] saveSigningRequest_zero_serial [of l h cfg env rsn rid cert now]
    by blast
qed

text \<open>
  C6 as stated fails: the counter wraps, so the \<open>2^64\<close>-th value received is zero, and
  the next one is the first value again.
\<close>

theorem serial_wraps_to_zero:
  "recvMany (2 ^ 64) (makeCertRequestHandler exConfig) ! (2 ^ 64 - 1) = 0 \<and>
   recvMany (2 ^ 64 + 1) (makeCertRequestHandler exConfig) ! (2 ^ 64) =
   recvMany (2 ^ 64 + 1) (makeCertRequestHandler exConfig) ! 0"
  by (simp add: recvMany_nth makeCertRequestHandler_def)


lemma two_created:
  "serveAll exLib (makeCertRequestHandler exConfig) [createCall, createCall2] =
     \<lparr>Config = exConfig,
      state = [exId \<mapsto> pendingRecord,
               ''BBBBBBBBBBBBBBBB'' \<mapsto>
                 pendingRecord\<lparr>request := acceptedCert\<lparr>Serial := 2\<rparr>, submitTime := 1,
                   reason := ''again''\<rparr>],
      sshAgentConn = [], NextSerial = 3\<rparr>"
  by (simp add: createCall_def createCall2_def createSigningRequest_def formBoilerplate_def
      extractCertFromRequest_def saveSigningRequest_def recvNextSerial_def
      makeCertRequestHandler_def newcertRequest_def Let_def exLib_def exParse_def formOf_def
      exConfig_def prodConfig_def submittedCert_def acceptedCert_def exId_def
      pendingRecord_def)

theorem serials_until_wrap_witness:
  "map unat (recvMany 3 (makeCertRequestHandler exConfig)) = [1, 2, 3] \<and>
   Serial (request (the (state
     (serveAll exLib (makeCertRequestHandler exConfig) [createCall, createCall2]) exId))) = 1 \<and>
   Serial (request (the (state
     (serveAll exLib (makeCertRequestHandler exConfig) [createCall, createCall2])
     ''BBBBBBBBBBBBBBBB''))) = 2 \<and>
   fst (saveSigningRequest exLib (makeCertRequestHandler exConfig) prodConfig ''prod''
          ''deploy'' exId 0 submittedCert 0) = Some ''Serial number not set.''"
proof -
  let ?h0 = "makeCertRequestHandler exConfig"
  let ?h2 = "serveAll exLib ?h0 [createCall, createCall2]"
  note t = serials_until_wrap [of 3 exConfig "[createCall, createCall2]" exLib ?h0
              prodConfig "''prod''" "''deploy''" exId submittedCert 0]
  have "(3::nat) < 2 ^ 64" "length [createCall, createCall2] < 2 ^ 64" by simp_all
  with t have a: "map unat (recvMany 3 ?h0) = [1..<Suc 3]"
    and d: "\<forall>id id' r r'. id \<noteq> id' \<and> state ?h2 id = Some r \<and> state ?h2 id' = Some r' \<longrightarrow>
              Serial (request r) \<noteq> Serial (request r')"
    and z: "fst (saveSigningRequest exLib ?h0 prodConfig ''prod'' ''deploy'' exId 0
                   submittedCert 0) \<noteq> None"
    by blast+
  have "[1..<Suc 3] = [1, 2, 3::nat]" by (simp add: upt_rec)
  with a have a': "map unat (recvMany 3 ?h0) = [1, 2, 3]" by simp
  have s1: "Serial (request (the (state ?h2 exId))) = 1"
    and s2: "Serial (request (the (state ?h2 ''BBBBBBBBBBBBBBBB''))) = 2"
    unfolding two_created by (simp_all add: ex_defs)
  have z': "fst (saveSigningRequest exLib ?h0 prodConfig ''prod'' ''deploy'' exId 0
                   submittedCert 0) = Some ''Serial number not set.''"
    by (simp add: saveSigningRequest_def ex_defs)
  from a' s1 s2 z' show ?thesis by blast
qed

end
